theory Spec2Isabelle
  imports Main "HOL-Library.Sublist"
begin

section \<open>Python values used by the script\<close>

text \<open>
  A Python \<open>str\<close> is a sequence of Unicode code points; it is modelled as a list of
  natural numbers, one per code point, so that \<open>str.strip\<close> and the CSV writer see the
  same characters as the interpreter does.  \<open>py\<close> embeds an ASCII literal.
\<close>

type_synonym str = "nat list"
type_synonym bytes = "nat list"

definition py :: "string \<Rightarrow> str" where
  "py s = map of_char s"

definition py_lines :: "string list \<Rightarrow> str" where
  "py_lines ls = concat (map (\<lambda>l. py l @ [10]) ls)"

text \<open>Exceptions are values; \<open>BaseException c m\<close> stands for any other class \<open>c\<close>.\<close>

datatype exn =
    OSError str
  | ValueError str
  | KeyError str
  | UnicodeEncodeError str
  | BaseException str str

text \<open>\<open>str.isspace\<close> for one character: the code points CPython classifies as whitespace.\<close>

definition isspace :: "nat \<Rightarrow> bool" where
  "isspace c \<longleftrightarrow>
     (9 \<le> c \<and> c \<le> 13) \<or> (28 \<le> c \<and> c \<le> 32) \<or> c = 133 \<or> c = 160 \<or> c = 5760 \<or>
     (8192 \<le> c \<and> c \<le> 8202) \<or> c = 8232 \<or> c = 8233 \<or> c = 8239 \<or> c = 8287 \<or> c = 12288"

text \<open>\<open>s.strip()\<close>: leading and trailing whitespace removed.\<close>

definition strip :: "str \<Rightarrow> str" where
  "strip s = rev (dropWhile isspace (rev (dropWhile isspace s)))"

text \<open>\<open>f'{n}'\<close> for a non-negative integer: its decimal digits.\<close>

fun dec :: "nat \<Rightarrow> str" where
  "dec n = (if n < 10 then [48 + n] else dec (n div 10) @ [48 + n mod 10])"

declare dec.simps [simp del]

text \<open>
  \<open>s.encode()\<close>: UTF-8.  Surrogate code points cannot be encoded and raise
  \<open>UnicodeEncodeError\<close>; numbers above U+10FFFF are not characters at all.
\<close>

definition utf8_char :: "nat \<Rightarrow> exn + bytes" where
  "utf8_char c =
     (if c < 128 then Inr [c]
      else if c < 2048 then Inr [192 + c div 64, 128 + c mod 64]
      else if c < 65536 then
        (if 55296 \<le> c \<and> c \<le> 57343
         then Inl (UnicodeEncodeError (py ''surrogates not allowed''))
         else Inr [224 + c div 4096, 128 + (c div 64) mod 64, 128 + c mod 64])
      else if c < 1114112 then
        Inr [240 + c div 262144, 128 + (c div 4096) mod 64, 128 + (c div 64) mod 64,
             128 + c mod 64]
      else Inl (UnicodeEncodeError (py ''not a code point'')))"

fun encode :: "str \<Rightarrow> exn + bytes" where
  "encode [] = Inr []"
| "encode (c # cs) =
     (case utf8_char c of
        Inl e \<Rightarrow> Inl e
      | Inr b \<Rightarrow> (case encode cs of Inl e \<Rightarrow> Inl e | Inr bs \<Rightarrow> Inr (b @ bs)))"

text \<open>\<open>base64.b64encode(b).decode()\<close>: the result is ASCII, so decoding keeps the numbers.\<close>

definition b64_alphabet :: str where
  "b64_alphabet = py ''ABCDEFGHIJKLMNOPQRSTUVWXYZabcdefghijklmnopqrstuvwxyz0123456789+/''"

definition b64_digit :: "nat \<Rightarrow> nat" where
  "b64_digit n = b64_alphabet ! (n mod 64)"

fun b64encode :: "bytes \<Rightarrow> str" where
  "b64encode [] = []"
| "b64encode [a] = [b64_digit (a div 4), b64_digit ((a mod 4) * 16), 61, 61]"
| "b64encode [a, b] =
     [b64_digit (a div 4), b64_digit ((a mod 4) * 16 + b div 16), b64_digit ((b mod 16) * 4), 61]"
| "b64encode (a # b # c # rest) =
     [b64_digit (a div 4), b64_digit ((a mod 4) * 16 + b div 16),
      b64_digit ((b mod 16) * 4 + c div 64), b64_digit (c mod 64)] @ b64encode rest"

section \<open>spaCy objects and the environment of the script\<close>

text \<open>An entity span as the script reads it: \<open>ent.text\<close> and \<open>ent.label_\<close>.\<close>

record span =
  span_text :: str
  span_label :: str

record doc =
  doc_text :: str
  ents :: "span list"

text \<open>
  The loaded pipeline \<open>nlp\<close> is called on a text and returns a \<open>Doc\<close> or raises (spaCy
  rejects texts longer than its \<open>max_length\<close>, for instance).
\<close>

type_synonym language = "str \<Rightarrow> exn + doc"

text \<open>
  What the script takes from outside:
  \<^item> \<open>spacy.load\<close> and \<open>displacy.render\<close>;
  \<^item> \<open>os.linesep\<close>, the line terminator pandas writes;
  \<^item> whether \<open>csv.writer\<close> quotes a field for a carriage return or line feed that is not
    part of the line terminator: CPython 3.11.10 and 3.12 do, CPython 3.11.2 does not;
  \<^item> the iteration order of a Python \<open>set\<close> of strings, which the hashes of the elements
    fix; here the distinct elements are ordered by an arbitrary key \<open>set_key\<close>, which yields
    every possible order as the key varies;
  \<^item> matplotlib's parser of math text, which returns a layout or raises \<open>ValueError\<close>.
\<close>

record env =
  spacy_load :: "str \<Rightarrow> exn + language"
  displacy_render :: "doc \<Rightarrow> (str \<times> str) list \<Rightarrow> str"
  linesep :: str
  csv_quotes_newlines :: bool
  set_key :: "str \<Rightarrow> nat"
  mathtext :: "str \<Rightarrow> exn + str"

definition list_set :: "env \<Rightarrow> str list \<Rightarrow> str list" where
  "list_set E xs = sort_key (set_key E) (remdups xs)"

text \<open>The state of the widgets when the script runs.\<close>

record widgets =
  model_name :: str
  text_input :: str
  analyze :: bool

section \<open>What a run of the script puts on the page\<close>

datatype rectangle =
  Rectangle (rect_pos: nat) (rect_label: str) (rect_height: nat) (rect_color: str)

text \<open>
  What matplotlib draws for a string: the string, or the layout its math-text parser made
  of it.
\<close>

datatype shown = Plain str | Math str

datatype annotation =
  Annotation (ann_text: shown) (ann_x: nat) (ann_y: nat)

datatype point =
  Point (pt_x: nat) (pt_y: nat) (pt_color: str)

datatype legend_entry =
  Line2D (leg_label: str) (leg_color: str)

record figure =
  fig_title :: str
  fig_ylabel :: str
  fig_bars :: "rectangle list"
  fig_points :: "point list"
  fig_annotations :: "annotation list"
  fig_legend :: "legend_entry list"

record dataframe =
  columns :: "str list"
  data :: "(str \<times> str) list"

text \<open>
  A run is observed as the list of Streamlit calls it makes, in order, together with the
  calls to the external model (\<open>Call_spacy_load\<close>, \<open>Call_nlp\<close>) and the stores into the
  resource cache.  \<open>Stop\<close> is \<open>st.stop()\<close>; \<open>Uncaught e\<close> is an exception nobody handles,
  which ends the run as well.  \<open>In_tab k\<close> marks what is written inside \<open>with tabk:\<close>.
\<close>

datatype element =
    Set_page_config str
  | Title str
  | Sidebar_title str
  | Sidebar_selectbox str "str list"
  | Sidebar_success str
  | Sidebar_error str
  | Markdown str
  | Header str
  | Text_area str
  | Button str
  | Error str
  | Tabs "str list"
  | Subheader str
  | Dataframe dataframe
  | Info str
  | Pyplot figure
  | Expander str str
  | Call_spacy_load str
  | Cache_store str
  | Call_nlp str
  | Stop
  | Uncaught exn
  | In_tab nat element

fun is_halt :: "element \<Rightarrow> bool" where
  "is_halt Stop = True"
| "is_halt (Uncaught e) = True"
| "is_halt (In_tab k e) = is_halt e"
| "is_halt _ = False"

definition halted :: "element list \<Rightarrow> bool" where
  "halted t \<longleftrightarrow> t \<noteq> [] \<and> is_halt (last t)"

text \<open>Statements in sequence: what follows a halted block does not run.\<close>

definition andthen :: "element list \<Rightarrow> element list \<Rightarrow> element list" where
  "andthen t u = (if halted t then t else t @ u)"

definition seq :: "element list list \<Rightarrow> element list" where
  "seq ts = foldl andthen [] ts"

section \<open>Constants of the script\<close>

definition entity_colors :: "(str \<times> str) list" where
  "entity_colors =
     [(py ''PERSON'', py ''#7aecec''), (py ''ORG'', py ''#feca74''),
      (py ''GPE'', py ''#ff9561''), (py ''LOC'', py ''#ff8197''),
      (py ''DATE'', py ''#bfe1d9''), (py ''TIME'', py ''#bfe1d9''),
      (py ''MONEY'', py ''#e4e7d2''), (py ''PERCENT'', py ''#e4e7d2''),
      (py ''WORK_OF_ART'', py ''#f0d0ff''), (py ''FAC'', py ''#aab7d4''),
      (py ''PRODUCT'', py ''#bfeeb7''), (py ''EVENT'', py ''#f89e96''),
      (py ''LAW'', py ''#ddd1ff''), (py ''LANGUAGE'', py ''#ff8461''),
      (py ''QUANTITY'', py ''#e4e7d2'')]"

text \<open>\<open>d.get(k, default)\<close> on a dictionary given by its items.\<close>

definition dict_get :: "(str \<times> str) list \<Rightarrow> str \<Rightarrow> str \<Rightarrow> str" where
  "dict_get d k dflt = (case map_of d k of None \<Rightarrow> dflt | Some v \<Rightarrow> v)"

definition color_of :: "str \<Rightarrow> str" where
  "color_of ent_type = dict_get entity_colors ent_type (py ''#cccccc'')"

definition model_choices :: "str list" where
  "model_choices = [py ''en_core_web_sm'', py ''en_core_web_md'', py ''en_core_web_lg'']"

definition loaded_message :: "str \<Rightarrow> str" where
  "loaded_message name = py ''Model '' @ [39] @ name @ [39] @ py '' loaded successfully!''"

definition download_command :: "str \<Rightarrow> str" where
  "download_command name = py ''python -m spacy download '' @ name"

definition not_found_message :: "str \<Rightarrow> str" where
  "not_found_message name =
     py ''Error: Model '' @ [39] @ name @ [39] @ py '' not found. Please install it with '' @
     [39] @ download_command name @ [39]"

definition empty_input_message :: str where
  "empty_input_message = py ''Please enter some text to analyze.''"

definition no_entities_message :: str where
  "no_entities_message = py ''No entities were detected in the text.''"

definition default_text :: str where
  "default_text = py ''Apple Inc. is planning to open a new office in New York City next January. CEO Tim Cook announced this during his visit to Boston last week.''"

definition ner_explanation :: str where
  "ner_explanation = [10] @ py_lines
     [''## What is Named Entity Recognition?'',
      ''Named Entity Recognition (NER) is a natural language processing technique that identifies and classifies named entities in text into predefined categories such as:'',
      ''- Persons'', ''- Organizations'', ''- Locations'', ''- Dates'', ''- Quantities'',
      ''- Monetary values'', ''- And more...'']"

definition entity_types_table :: str where
  "entity_types_table = [10] @ py_lines
     [''    | Entity Type | Description | Example |'',
      ''    |-------------|-------------|---------|'',
      ''    | PERSON | People, including fictional | Tim Cook, Harry Potter |'',
      ''    | ORG | Companies, agencies, institutions | Apple Inc., United Nations |'',
      ''    | GPE | Countries, cities, states | New York City, France |'',
      ''    | LOC | Non-GPE locations, mountain ranges, bodies of water | Alps, Pacific Ocean |'',
      ''    | DATE | Absolute or relative dates or periods | January, last week |'',
      ''    | TIME | Times smaller than a day | 3pm, midnight |'',
      ''    | MONEY | Monetary values, including unit | $200, 10 euros |'',
      ''    | PERCENT | Percentage | 15%, one-tenth |''] @
     py ''    | WORK_OF_ART | Titles of books, songs, etc. | '' @ [34] @ py ''The Great Gatsby'' @
     [34] @ py '' |'' @ [10] @ py_lines
     [''    | FAC | Buildings, airports, highways, bridges | Golden Gate Bridge |'',
      ''    | PRODUCT | Objects, vehicles, foods, etc. (not services) | iPhone, Boeing 747 |'',
      ''    | EVENT | Named hurricanes, battles, wars, sports events | World War II, Olympics |'',
      ''    | LAW | Named documents made into laws | Constitution, GDPR |'',
      ''    | LANGUAGE | Any named language | English, Spanish |'',
      ''    | QUANTITY | Measurements, as of weight or distance | 10km, 20 pounds |''] @
     py ''    ''"

definition footer :: str where
  "footer = py ''Created with '' @ [10084, 65039] @ py '' using spaCy and Streamlit''"

section \<open>The model loader and its resource cache\<close>

text \<open>
  \<open>@st.cache_resource\<close> keeps the object a call returned, keyed by the arguments of the
  call.  A call with a key already in the cache returns the stored object and does not run
  the function; otherwise the function runs, and its result is stored when it returns.  An
  exception stores nothing and reaches the caller.
\<close>

type_synonym cache = "str \<rightharpoonup> language"

definition load_model :: "env \<Rightarrow> cache \<Rightarrow> str \<Rightarrow> element list \<times> (exn + language) \<times> cache" where
  "load_model E C name =
     (case C name of
        Some nlp \<Rightarrow> ([], Inr nlp, C)
      | None \<Rightarrow>
          (case spacy_load E name of
             Inl e \<Rightarrow> ([Call_spacy_load name], Inl e, C)
           | Inr nlp \<Rightarrow> ([Call_spacy_load name, Cache_store name], Inr nlp, C(name \<mapsto> nlp))))"

section \<open>The tabular export\<close>

text \<open>
  \<open>df.to_csv(index=False)\<close> writes the header and the rows with \<open>csv.writer\<close>: comma
  as delimiter, \<open>"\<close> as quote character doubled inside a quoted field, minimal quoting,
  \<open>os.linesep\<close> after each record.  A field is quoted when it holds the delimiter, the quote
  character or a character of the line terminator; the interpreters that quote for every
  carriage return and line feed (\<open>q\<close> below) do so whatever the line terminator is.
\<close>

definition csv_special :: "bool \<Rightarrow> str \<Rightarrow> nat \<Rightarrow> bool" where
  "csv_special q lt c \<longleftrightarrow> c = 44 \<or> c = 34 \<or> c \<in> set lt \<or> (q \<and> (c = 10 \<or> c = 13))"

definition needs_quote :: "bool \<Rightarrow> str \<Rightarrow> str \<Rightarrow> bool" where
  "needs_quote q lt f = list_ex (csv_special q lt) f"

definition double_quotes :: "str \<Rightarrow> str" where
  "double_quotes f = concat (map (\<lambda>c. if c = 34 then [34, 34] else [c]) f)"

definition csv_field :: "bool \<Rightarrow> str \<Rightarrow> str \<Rightarrow> str" where
  "csv_field q lt f = (if needs_quote q lt f then [34] @ double_quotes f @ [34] else f)"

fun join :: "str \<Rightarrow> str list \<Rightarrow> str" where
  "join sep [] = []"
| "join sep [x] = x"
| "join sep (x # y # ys) = x @ sep @ join sep (y # ys)"

text \<open>A record that would be empty (one empty field) is written as a pair of quotes.\<close>

definition writerow :: "bool \<Rightarrow> str \<Rightarrow> str list \<Rightarrow> str" where
  "writerow q lt row =
     (let body = join [44] (map (csv_field q lt) row)
      in (if row \<noteq> [] \<and> body = [] then [34, 34] else body) @ lt)"

text \<open>
  \<open>pd.DataFrame(rows, columns=cols)\<close> stores the strings as text, which a string that
  UTF-8 cannot encode (a lone surrogate) is not: the constructor raises.
\<close>

definition utf8_ok :: "nat \<Rightarrow> bool" where
  "utf8_ok c \<longleftrightarrow> c < 55296 \<or> (57343 < c \<and> c < 1114112)"

definition DataFrame :: "(str \<times> str) list \<Rightarrow> str list \<Rightarrow> exn + dataframe" where
  "DataFrame rows cols =
     (if list_all (\<lambda>(t, l). list_all utf8_ok t \<and> list_all utf8_ok l) rows
      then Inr \<lparr>columns = cols, data = rows\<rparr>
      else Inl (UnicodeEncodeError (py ''surrogates not allowed'')))"

definition to_csv :: "bool \<Rightarrow> str \<Rightarrow> dataframe \<Rightarrow> str" where
  "to_csv q lt df =
     writerow q lt (columns df) @ concat (map (\<lambda>(t, l). writerow q lt [t, l]) (data df))"

definition download_link :: "str \<Rightarrow> str" where
  "download_link b64 =
     py ''<a href='' @ [34] @ py ''data:file/csv;base64,'' @ b64 @ [34] @ py '' download='' @
     [34] @ py ''entities.csv'' @ [34] @ py ''>Download Entity List as CSV</a>''"

section \<open>The four result views\<close>

definition tab1 :: "env \<Rightarrow> doc \<Rightarrow> element list" where
  "tab1 E d =
     [Subheader (py ''Entities Highlighted in Text''),
      Markdown (displacy_render E d entity_colors)]"

definition entities_data :: "doc \<Rightarrow> (str \<times> str) list" where
  "entities_data d = map (\<lambda>ent. (span_text ent, span_label ent)) (ents d)"

definition tab2 :: "env \<Rightarrow> doc \<Rightarrow> element list" where
  "tab2 E d =
     Subheader (py ''Extracted Entities'') #
     (if length (ents d) > 0 then
        (case DataFrame (entities_data d) [py ''Entity'', py ''Type''] of
           Inl e \<Rightarrow> [Uncaught e]
         | Inr df \<Rightarrow>
             Dataframe df #
             (case encode (to_csv (csv_quotes_newlines E) (linesep E) df) of
                Inl e \<Rightarrow> [Uncaught e]
              | Inr b \<Rightarrow> [Markdown (download_link (b64encode b))]))
      else [Info no_entities_message])"

text \<open>
  \<open>Counter(xs)\<close> counts the elements of \<open>xs\<close> one after the other; its keys keep the order
  in which they were first inserted.
\<close>

fun counter_add :: "(str \<times> nat) list \<Rightarrow> str \<Rightarrow> (str \<times> nat) list" where
  "counter_add [] k = [(k, 1)]"
| "counter_add ((k', n) # kvs) k =
     (if k' = k then (k', n + 1) # kvs else (k', n) # counter_add kvs k)"

definition Counter :: "str list \<Rightarrow> (str \<times> nat) list" where
  "Counter xs = foldl counter_add [] xs"

text \<open>
  \<open>ax.bar(x, height, color=colors)\<close> with strings on the x axis: a string is placed at the
  position of its first appearance among the strings given.
\<close>

definition category_position :: "str list \<Rightarrow> str \<Rightarrow> nat" where
  "category_position xs x = length (takeWhile (\<lambda>y. y \<noteq> x) xs)"

definition ax_bar :: "str list \<Rightarrow> nat list \<Rightarrow> str list \<Rightarrow> rectangle list" where
  "ax_bar xs hs cs =
     map (\<lambda>(x, h, c). Rectangle (category_position xs x) x h c) (zip xs (zip hs cs))"

text \<open>
  The text above a bar is \<open>f'{height}'\<close>, a string of digits, which matplotlib draws as it
  is; so it does the category labels, codes of the pipeline's label scheme such as
  \<open>PERSON\<close> or \<open>WORK_OF_ART\<close>, which hold no dollar sign.
\<close>

definition bar_label :: "rectangle \<Rightarrow> annotation" where
  "bar_label bar = Annotation (Plain (dec (rect_height bar))) (rect_pos bar) (rect_height bar)"

definition count_figure :: "doc \<Rightarrow> figure" where
  "count_figure d =
     (let entity_counts = Counter (map span_label (ents d));
          entity_types = map fst entity_counts;
          counts = map snd entity_counts;
          colors = map color_of entity_types;
          bars = ax_bar entity_types counts colors
      in \<lparr>fig_title = py ''Entity Counts by Type'', fig_ylabel = py ''Count'',
          fig_bars = bars, fig_points = [], fig_annotations = map bar_label bars,
          fig_legend = []\<rparr>)"

definition tab3 :: "doc \<Rightarrow> element list" where
  "tab3 d =
     Subheader (py ''Entity Count by Type'') #
     (if length (ents d) > 0 then [Pyplot (count_figure d)]
      else [Info no_entities_message])"

text \<open>\<open>[type_to_num[t] for t in entity_types]\<close>: a missing key raises \<open>KeyError\<close>.\<close>

fun lookup_all :: "(str \<rightharpoonup> nat) \<Rightarrow> str list \<Rightarrow> exn + nat list" where
  "lookup_all m [] = Inr []"
| "lookup_all m (t # ts) =
     (case m t of
        None \<Rightarrow> Inl (KeyError t)
      | Some y \<Rightarrow> (case lookup_all m ts of Inl e \<Rightarrow> Inl e | Inr ys \<Rightarrow> Inr (y # ys)))"

text \<open>
  The annotations of the scatter view carry the entity texts, which are the user's text.
  matplotlib reads a text with an even, positive number of unescaped dollar signs as math
  text and hands it to its parser; in any other text it replaces \<open>\$\<close> by \<open>$\<close>.
  \<open>plt.tight_layout()\<close> (line 175) lays the texts out: there the parser's \<open>ValueError\<close>
  is raised, before anything is shown.
\<close>

fun count_escaped :: "str \<Rightarrow> nat" where
  "count_escaped (a # b # s) =
     (if a = 92 \<and> b = 36 then Suc (count_escaped s) else count_escaped (b # s))"
| "count_escaped s = 0"

definition is_math_text :: "str \<Rightarrow> bool" where
  "is_math_text s =
     (let dollar_count = count_list s 36 - count_escaped s
      in dollar_count > 0 \<and> dollar_count mod 2 = 0)"

fun unescape_dollars :: "str \<Rightarrow> str" where
  "unescape_dollars (a # b # s) =
     (if a = 92 \<and> b = 36 then 36 # unescape_dollars s else a # unescape_dollars (b # s))"
| "unescape_dollars s = s"

definition draw_text :: "env \<Rightarrow> str \<Rightarrow> exn + shown" where
  "draw_text E s =
     (if is_math_text s
      then (case mathtext E s of Inl e \<Rightarrow> Inl e | Inr layout \<Rightarrow> Inr (Math layout))
      else Inr (Plain (unescape_dollars s)))"

fun draw_all :: "env \<Rightarrow> str list \<Rightarrow> exn + shown list" where
  "draw_all E [] = Inr []"
| "draw_all E (s # ss) =
     (case draw_text E s of
        Inl e \<Rightarrow> Inl e
      | Inr x \<Rightarrow> (case draw_all E ss of Inl e \<Rightarrow> Inl e | Inr xs \<Rightarrow> Inr (x # xs)))"

definition scatter_figure :: "env \<Rightarrow> doc \<Rightarrow> exn + figure" where
  "scatter_figure E d =
     (let entities = map span_text (ents d);
          entity_types = map span_label (ents d);
          unique_types = list_set E entity_types;
          type_to_num = Map.empty(unique_types [\<mapsto>] [0..<length unique_types])
      in case lookup_all type_to_num entity_types of
           Inl e \<Rightarrow> Inl e
         | Inr y_values \<Rightarrow>
             (let colors = map color_of entity_types
              in case draw_all E entities of
                   Inl e \<Rightarrow> Inl e
                 | Inr texts \<Rightarrow>
                     Inr \<lparr>fig_title = py ''Entity Visualization'', fig_ylabel = [],
                          fig_bars = [],
                          fig_points = map (\<lambda>(i, y, c). Point i y c)
                                        (zip [0..<length entities] (zip y_values colors)),
                          fig_annotations = map (\<lambda>(i, t). Annotation t i (y_values ! i))
                                        (zip [0..<length entities] texts),
                          fig_legend = map (\<lambda>ent_type. Line2D ent_type (color_of ent_type))
                                        unique_types\<rparr>))"

definition tab4 :: "env \<Rightarrow> doc \<Rightarrow> element list" where
  "tab4 E d =
     Subheader (py ''Entity Network Visualization'') #
     (if length (ents d) > 0 then
        Markdown (py ''Entity relationship visualization shows how entities appear in the document:'') #
        (case scatter_figure E d of
           Inl e \<Rightarrow> [Uncaught e]
         | Inr fig \<Rightarrow> [Pyplot fig])
      else [Info no_entities_message])"

section \<open>The script\<close>

definition tab_names :: "str list" where
  "tab_names =
     [py ''Highlighted Text'', py ''Entity List'', py ''Entity Count'',
      py ''Entity Visualization'']"

definition results :: "env \<Rightarrow> doc \<Rightarrow> element list" where
  "results E d =
     seq [[Tabs tab_names], map (In_tab 1) (tab1 E d), map (In_tab 2) (tab2 E d),
          map (In_tab 3) (tab3 d), map (In_tab 4) (tab4 E d)]"

definition analysis :: "env \<Rightarrow> language \<Rightarrow> str \<Rightarrow> element list" where
  "analysis E nlp text =
     (if strip text = [] then [Error empty_input_message]
      else Call_nlp text #
           (case nlp text of
              Inl e \<Rightarrow> [Uncaught e]
            | Inr d \<Rightarrow> results E d))"

definition page_top :: "element list" where
  "page_top =
     [Markdown ner_explanation,
      Header (py ''Enter Text for NER Analysis''),
      Text_area (py ''Paste your text here:''),
      Button (py ''Analyze Text'')]"

definition page_bottom :: "element list" where
  "page_bottom =
     [Expander (py ''Entity Types Explanation'') entity_types_table,
      Markdown (py ''---''),
      Markdown footer]"

definition page :: "env \<Rightarrow> language \<Rightarrow> widgets \<Rightarrow> element list" where
  "page E nlp w =
     seq [page_top,
          (if analyze w then analysis E nlp (text_input w) else []),
          page_bottom]"

definition preamble :: "element list" where
  "preamble =
     [Set_page_config (py ''Named Entity Recognition System''),
      Title (py ''Named Entity Recognition System''),
      Sidebar_title (py ''Controls''),
      Sidebar_selectbox (py ''Select spaCy Model'') model_choices]"

text \<open>One run of the script, from the cache it finds to the cache it leaves.\<close>

definition run :: "env \<Rightarrow> cache \<Rightarrow> widgets \<Rightarrow> element list \<times> cache" where
  "run E C w =
     (case load_model E C (model_name w) of
        (calls, Inl e, C') \<Rightarrow>
          (preamble @ calls @ [Sidebar_error (not_found_message (model_name w)), Stop], C')
      | (calls, Inr nlp, C') \<Rightarrow>
          (preamble @ calls @ [Sidebar_success (loaded_message (model_name w))] @ page E nlp w,
           C'))"

text \<open>A session: the script runs again at every interaction, on the cache the last run left.\<close>

fun session :: "env \<Rightarrow> cache \<Rightarrow> widgets list \<Rightarrow> element list \<times> cache" where
  "session E C [] = ([], C)"
| "session E C (w # ws) =
     (case run E C w of (t, C') \<Rightarrow> (case session E C' ws of (ts, C'') \<Rightarrow> (t @ ts, C'')))"

section \<open>Reading a run\<close>

text \<open>What view \<open>k\<close> shows: the elements written inside tab \<open>k\<close>, in order.\<close>

fun view :: "nat \<Rightarrow> element list \<Rightarrow> element list" where
  "view k [] = []"
| "view k (In_tab j x # t) = (if j = k then x # view k t else view k t)"
| "view k (x # t) = view k t"

fun is_inference :: "element \<Rightarrow> bool" where
  "is_inference (Call_nlp t) = True"
| "is_inference (In_tab k x) = is_inference x"
| "is_inference x = False"

fun is_uncaught :: "element \<Rightarrow> bool" where
  "is_uncaught (Uncaught e) = True"
| "is_uncaught (In_tab k x) = is_uncaught x"
| "is_uncaught x = False"

fun is_result :: "element \<Rightarrow> bool" where
  "is_result (Tabs names) = True"
| "is_result (In_tab k x) = True"
| "is_result (Dataframe df) = True"
| "is_result (Pyplot fig) = True"
| "is_result x = False"

fun is_chart_or_table :: "element \<Rightarrow> bool" where
  "is_chart_or_table (Dataframe df) = True"
| "is_chart_or_table (Pyplot fig) = True"
| "is_chart_or_table (In_tab k x) = is_chart_or_table x"
| "is_chart_or_table x = False"

section \<open>A sample environment\<close>

text \<open>
  One installed model, which finds three entities in one sentence, one in each of two
  others and none elsewhere; a renderer that returns the text of the document; POSIX line
  ends; a CSV writer that quotes every carriage return and line feed; a math-text parser
  that refuses \<open>$5_$6\<close> (a subscript without its argument) and lays any other text out
  without its dollar signs.  \<open>older_env\<close> differs in the CSV writer alone.
\<close>

definition sample_doc :: doc where
  "sample_doc =
     \<lparr>doc_text = py ''Tim met Ann at Apple, Inc'',
      ents = [\<lparr>span_text = py ''Tim'', span_label = py ''PERSON''\<rparr>,
              \<lparr>span_text = py ''Ann'', span_label = py ''PERSON''\<rparr>,
              \<lparr>span_text = py ''Apple, Inc'', span_label = py ''ORG''\<rparr>]\<rparr>"

definition money_doc :: doc where
  "money_doc =
     \<lparr>doc_text = py ''Pay $5_$6'',
      ents = [\<lparr>span_text = py ''$5_$6'', span_label = py ''MONEY''\<rparr>]\<rparr>"

definition york_doc :: doc where
  "york_doc =
     \<lparr>doc_text = py ''In New'' @ [13] @ py ''York'',
      ents = [\<lparr>span_text = py ''New'' @ [13] @ py ''York'', span_label = py ''GPE''\<rparr>]\<rparr>"

definition sample_nlp :: language where
  "sample_nlp text =
     Inr (if text = doc_text sample_doc then sample_doc
          else if text = doc_text money_doc then money_doc
          else if text = doc_text york_doc then york_doc
          else \<lparr>doc_text = text, ents = []\<rparr>)"

definition sample_env :: env where
  "sample_env =
     \<lparr>spacy_load = (\<lambda>name. if name = py ''en_core_web_sm'' then Inr sample_nlp
                            else Inl (OSError (py ''[E050] Can't find model''))),
      displacy_render = (\<lambda>d colors. doc_text d),
      linesep = [10],
      csv_quotes_newlines = True,
      set_key = length,
      mathtext = (\<lambda>s. if s = py ''$5_$6'' then Inl (ValueError (py ''ParseFatalException''))
                         else Inr (filter (\<lambda>c. c \<noteq> 36) s))\<rparr>"

definition older_env :: env where
  "older_env = sample_env\<lparr>csv_quotes_newlines := False\<rparr>"

section \<open>Reading the export back\<close>

text \<open>
  Modelled from the spec: the repository writes the export and never reads it; the
  round trip of the specification needs a reader, which is missing.  \<open>csv_reader\<close> is the
  reader of the dialect that \<open>to_csv\<close> writes, as Python's \<open>csv.reader\<close> has it: fields
  separated by commas, a field in double quotes may hold any character, a doubled quote
  inside it stands for one quote, and outside quotes a line feed, a carriage return or the
  two together end a record.  It runs character by character over a configuration (state,
  finished records, fields of the current record, current field); every field is read as a
  string.
\<close>

datatype rstate = Start_record | Start_field | In_field | In_quoted | Quote_in_quoted | After_cr | Failed

type_synonym rconfig = "rstate \<times> str list list \<times> str list \<times> str"

definition end_field :: "str list list \<Rightarrow> str list \<Rightarrow> str \<Rightarrow> nat \<Rightarrow> rconfig" where
  "end_field rows row fld c =
     (if c = 44 then (Start_field, rows, row @ [fld], [])
      else if c = 10 then (Start_record, rows @ [row @ [fld]], [], [])
      else (After_cr, rows @ [row @ [fld]], [], []))"

definition start_field :: "str list list \<Rightarrow> str list \<Rightarrow> nat \<Rightarrow> rconfig" where
  "start_field rows row c =
     (if c = 34 then (In_quoted, rows, row, [])
      else if c = 44 \<or> c = 10 \<or> c = 13 then end_field rows row [] c
      else (In_field, rows, row, [c]))"

definition start_record :: "str list list \<Rightarrow> nat \<Rightarrow> rconfig" where
  "start_record rows c =
     (if c = 10 then (Start_record, rows @ [[]], [], [])
      else if c = 13 then (After_cr, rows @ [[]], [], [])
      else start_field rows [] c)"

fun step :: "rconfig \<Rightarrow> nat \<Rightarrow> rconfig" where
  "step (Start_record, rows, row, fld) c = start_record rows c"
| "step (After_cr, rows, row, fld) c =
     (if c = 10 then (Start_record, rows, [], []) else start_record rows c)"
| "step (Start_field, rows, row, fld) c = start_field rows row c"
| "step (In_field, rows, row, fld) c =
     (if c = 44 \<or> c = 10 \<or> c = 13 then end_field rows row fld c
      else (In_field, rows, row, fld @ [c]))"
| "step (In_quoted, rows, row, fld) c =
     (if c = 34 then (Quote_in_quoted, rows, row, fld) else (In_quoted, rows, row, fld @ [c]))"
| "step (Quote_in_quoted, rows, row, fld) c =
     (if c = 34 then (In_quoted, rows, row, fld @ [34])
      else if c = 44 \<or> c = 10 \<or> c = 13 then end_field rows row fld c
      else (Failed, rows, row, fld))"
| "step (Failed, rows, row, fld) c = (Failed, rows, row, fld)"

fun finish :: "rconfig \<Rightarrow> str list list option" where
  "finish (Start_record, rows, row, fld) = Some rows"
| "finish (After_cr, rows, row, fld) = Some rows"
| "finish (In_quoted, rows, row, fld) = None"
| "finish (Failed, rows, row, fld) = None"
| "finish (st, rows, row, fld) = Some (rows @ [row @ [fld]])"

definition csv_reader :: "str \<Rightarrow> str list list option" where
  "csv_reader s = finish (foldl step (Start_record, [], [], []) s)"

section \<open>Totals read off a page\<close>

text \<open>
  The number of entities each element shows: the rows of a table, the sum of the bar
  heights of a chart, the points of a scatter plot.
\<close>

fun table_rows :: "element \<Rightarrow> nat" where
  "table_rows (Dataframe df) = length (data df)"
| "table_rows (In_tab k x) = table_rows x"
| "table_rows x = 0"

fun bar_total :: "element \<Rightarrow> nat" where
  "bar_total (Pyplot fig) = sum_list (map rect_height (fig_bars fig))"
| "bar_total (In_tab k x) = bar_total x"
| "bar_total x = 0"

fun point_count :: "element \<Rightarrow> nat" where
  "point_count (Pyplot fig) = length (fig_points fig)"
| "point_count (In_tab k x) = point_count x"
| "point_count x = 0"

section \<open>Opening the download link\<close>

text \<open>
  What a browser does with the payload of the link: it undoes base64 and reads the bytes
  as UTF-8.  Both are written from the formats, not from the code that encodes.
\<close>

definition b64_value :: "nat \<Rightarrow> nat" where
  "b64_value c =
     (if 65 \<le> c \<and> c \<le> 90 then c - 65
      else if 97 \<le> c \<and> c \<le> 122 then c - 71
      else if 48 \<le> c \<and> c \<le> 57 then c + 4
      else if c = 43 then 62 else 63)"

fun b64decode :: "str \<Rightarrow> bytes option" where
  "b64decode [] = Some []"
| "b64decode (a # b # c # d # rest) =
     (let x = b64_value a * 4 + b64_value b div 16;
          y = (b64_value b mod 16) * 16 + b64_value c div 4;
          z = (b64_value c mod 4) * 64 + b64_value d
      in if c = 61 \<and> d = 61 then (if rest = [] then Some [x] else None)
         else if d = 61 then (if rest = [] then Some [x, y] else None)
         else map_option (\<lambda>bs. x # y # z # bs) (b64decode rest))"
| "b64decode s = None"

fun utf8_decode :: "bytes \<Rightarrow> str option" where
  "utf8_decode [] = Some []"
| "utf8_decode (b # bs) =
     (if b < 128 then map_option (\<lambda>s. b # s) (utf8_decode bs)
      else if b < 224 then
        (case bs of
           b1 # r \<Rightarrow> map_option (\<lambda>s. ((b - 192) * 64 + (b1 - 128)) # s) (utf8_decode r)
         | _ \<Rightarrow> None)
      else if b < 240 then
        (case bs of
           b1 # b2 # r \<Rightarrow>
             map_option (\<lambda>s. (((b - 224) * 64 + (b1 - 128)) * 64 + (b2 - 128)) # s)
               (utf8_decode r)
         | _ \<Rightarrow> None)
      else
        (case bs of
           b1 # b2 # b3 # r \<Rightarrow>
             map_option
               (\<lambda>s. ((((b - 240) * 64 + (b1 - 128)) * 64 + (b2 - 128)) * 64 + (b3 - 128)) # s)
               (utf8_decode r)
         | _ \<Rightarrow> None))"

section \<open>Reading a number and a text as drawn\<close>

text \<open>The number a string of decimal digits stands for.\<close>

definition is_digit :: "nat \<Rightarrow> bool" where
  "is_digit c \<longleftrightarrow> 48 \<le> c \<and> c \<le> 57"

definition decimal_value :: "str \<Rightarrow> nat" where
  "decimal_value s = foldl (\<lambda>n c. 10 * n + (c - 48)) 0 s"


text \<open>A text that matplotlib can lay out, as it is or as math text.\<close>

definition drawable :: "env \<Rightarrow> str \<Rightarrow> bool" where
  "drawable E s = (case draw_text E s of Inl e \<Rightarrow> False | Inr x \<Rightarrow> True)"

section \<open>Orders named by the specification\<close>

text \<open>
  First-occurrence order: the distinct elements of a list, each at the place of its first
  occurrence.
\<close>

primrec first_seen :: "'a list \<Rightarrow> 'a list" where
  "first_seen [] = []"
| "first_seen (x # xs) = x # filter (\<lambda>y. y \<noteq> x) (first_seen xs)"

text \<open>
  The list \<open>y_values\<close> of the scatter view, read without the \<open>KeyError\<close> branch (which
  no document reaches, as \<open>scatter_figure_Inr\<close> shows).
\<close>

definition y_values :: "env \<Rightarrow> doc \<Rightarrow> nat list" where
  "y_values E d =
     (let us = list_set E (map span_label (ents d))
      in map (\<lambda>t. the ((Map.empty(us [\<mapsto>] [0..<length us])) t)) (map span_label (ents d)))"

text \<open>A field that needs no quotes holds none of the characters the reader acts on.\<close>

definition plain :: "str \<Rightarrow> bool" where
  "plain f = list_all (\<lambda>c. c \<noteq> 44 \<and> c \<noteq> 34 \<and> c \<noteq> 10 \<and> c \<noteq> 13) f"

text \<open>
  A field the reader gets back as it was: one that the writer quoted, or one that holds
  none of those characters.
\<close>

definition readable :: "bool \<Rightarrow> str \<Rightarrow> str \<Rightarrow> bool" where
  "readable q lt f \<longleftrightarrow> needs_quote q lt f \<or> plain f"


section \<open>Sequencing\<close>

lemma halted_simps [simp]:
  "halted [] = False" "halted (t @ [x]) = is_halt x" "halted [x] = is_halt x"
  by (simp_all add: halted_def)

lemma halted_Cons [simp]: "halted (x # t) = (if t = [] then is_halt x else halted t)"
  by (simp add: halted_def)

lemma halted_append: "halted (t @ u) = (if u = [] then halted t else halted u)"
  by (simp add: halted_def)

lemma foldl_andthen: "\<not> halted t \<Longrightarrow> foldl andthen (t @ u) us = t @ foldl andthen u us"
  by (induction us arbitrary: u) (simp_all add: andthen_def halted_append)

lemma foldl_andthen_halted: "halted t \<Longrightarrow> foldl andthen t us = t"
  by (induction us) (simp_all add: andthen_def)

lemma seq_Nil [simp]: "seq [] = []"
  by (simp add: seq_def)

lemma seq_Cons: "seq (t # ts) = (if halted t then t else t @ seq ts)"
  using foldl_andthen [of t "[]" ts] foldl_andthen_halted [of t ts]
  by (simp add: seq_def andthen_def)

section \<open>Model loading\<close>

lemma load_model_miss_fail:
  "C name = None \<Longrightarrow> spacy_load E name = Inl e \<Longrightarrow>
   load_model E C name = ([Call_spacy_load name], Inl e, C)"
  by (simp add: load_model_def)

lemma load_model_Inl:
  "fst (snd (load_model E C name)) = Inl e \<longleftrightarrow> C name = None \<and> spacy_load E name = Inl e"
  by (auto simp: load_model_def split: option.splits sum.splits)

lemma run_load_failed:
  "C (model_name w) = None \<Longrightarrow> spacy_load E (model_name w) = Inl e \<Longrightarrow>
   run E C w =
     (preamble @ [Call_spacy_load (model_name w),
                  Sidebar_error (not_found_message (model_name w)), Stop], C)"
  by (simp add: run_def load_model_miss_fail)

text \<open>
  C2.  When loading the selected model fails, the run shows the sidebar error
  \<open>Error: Model '<name>' not found. Please install it with 'python -m spacy download <name>'\<close>,
  which holds the download command for the selected name, stops right after it, calls the
  pipeline on no text, and leaves the cache as it was.
\<close>

theorem load_failure_shows_remedy_and_stops:
  assumes "fst (snd (load_model E C (model_name w))) = Inl e"
  shows "fst (run E C w) =
           preamble @ [Call_spacy_load (model_name w),
                       Sidebar_error (not_found_message (model_name w)), Stop] \<and>
         not_found_message (model_name w) =
           py ''Error: Model '' @ [39] @ model_name w @ [39] @
           py '' not found. Please install it with '' @ [39] @
           py ''python -m spacy download '' @ model_name w @ [39] \<and>
         sublist (py ''python -m spacy download '' @ model_name w)
           (not_found_message (model_name w)) \<and>
         halted (fst (run E C w)) \<and>
         \<not> list_ex is_inference (fst (run E C w)) \<and>
         snd (run E C w) = C"
proof -
  from assms have m: "C (model_name w) = None" and f: "spacy_load E (model_name w) = Inl e"
    by (simp_all add: load_model_Inl)
  have l: "not_found_message (model_name w) =
           py ''Error: Model '' @ [39] @ model_name w @ [39] @
           py '' not found. Please install it with '' @ [39] @
           py ''python -m spacy download '' @ model_name w @ [39]"
    by (simp add: not_found_message_def download_command_def)
  have "not_found_message (model_name w) =
          (py ''Error: Model '' @ [39] @ model_name w @ [39] @
           py '' not found. Please install it with '' @ [39]) @
          (py ''python -m spacy download '' @ model_name w) @ [39]"
    by (simp add: l)
  then have s: "sublist (py ''python -m spacy download '' @ model_name w)
      (not_found_message (model_name w))"
    unfolding sublist_def by blast
  have r: "fst (run E C w) =
           preamble @ [Call_spacy_load (model_name w),
                       Sidebar_error (not_found_message (model_name w)), Stop]"
    "snd (run E C w) = C"
    using run_load_failed [of C w E e, OF m f] by simp_all
  have h: "halted (fst (run E C w))" "\<not> list_ex is_inference (fst (run E C w))"
    unfolding r by (simp_all add: preamble_def)
  show ?thesis
    using r l s h by (simp only: simp_thms)
qed

theorem load_failure_shows_remedy_and_stops_witness:
  "fst (snd (load_model sample_env Map.empty (py ''en_core_web_lg''))) =
     Inl (OSError (py ''[E050] Can't find model'')) \<and>
   fst (run sample_env Map.empty
          \<lparr>model_name = py ''en_core_web_lg'', text_input = default_text, analyze = True\<rparr>) =
     preamble @
     [Call_spacy_load (py ''en_core_web_lg''),
      Sidebar_error
        (py ''Error: Model '' @ [39] @ py ''en_core_web_lg'' @ [39] @
         py '' not found. Please install it with '' @ [39] @
         py ''python -m spacy download en_core_web_lg'' @ [39]),
      Stop]"
proof -
  let ?w = "\<lparr>model_name = py ''en_core_web_lg'', text_input = default_text, analyze = True\<rparr>"
  have h: "fst (snd (load_model sample_env Map.empty (model_name ?w))) =
           Inl (OSError (py ''[E050] Can't find model''))"
    by (simp add: load_model_def sample_env_def py_def)
  have c: "py ''python -m spacy download '' @ py ''en_core_web_lg'' =
      py ''python -m spacy download en_core_web_lg''"
    by (simp add: py_def)
  note T = load_failure_shows_remedy_and_stops [OF h]
  have 1: "fst (run sample_env Map.empty ?w) =
      preamble @ [Call_spacy_load (model_name ?w),
                  Sidebar_error (not_found_message (model_name ?w)), Stop]"
    using T by blast
  have 2: "not_found_message (model_name ?w) =
      py ''Error: Model '' @ [39] @ model_name ?w @ [39] @
      py '' not found. Please install it with '' @ [39] @
      py ''python -m spacy download '' @ model_name ?w @ [39]"
    using T by blast
  show ?thesis
    using h unfolding 1 2 by (simp add: c)
qed

section \<open>Input validation\<close>

lemma strip_eq_Nil: "strip s = [] \<longleftrightarrow> list_all isspace s"
proof -
  have mid: "dropWhile isspace (rev (dropWhile isspace s)) = [] \<longleftrightarrow> dropWhile isspace s = []"
  proof
    assume a: "dropWhile isspace (rev (dropWhile isspace s)) = []"
    show "dropWhile isspace s = []"
    proof (rule ccontr)
      assume n: "dropWhile isspace s \<noteq> []"
      then have "\<not> isspace (hd (dropWhile isspace s))" by (rule hd_dropWhile)
      moreover have "hd (dropWhile isspace s) \<in> set (rev (dropWhile isspace s))"
        using n by simp
      ultimately show False using a by (auto simp: dropWhile_eq_Nil_conv)
    qed
  next
    assume e: "dropWhile isspace s = []"
    show "dropWhile isspace (rev (dropWhile isspace s)) = []" unfolding e by simp
  qed
  have "strip s = [] \<longleftrightarrow> dropWhile isspace (rev (dropWhile isspace s)) = []"
    by (simp add: strip_def)
  also note mid
  also have "dropWhile isspace s = [] \<longleftrightarrow> list_all isspace s"
    by (simp add: dropWhile_eq_Nil_conv list_all_iff)
  finally show ?thesis .
qed

lemma load_model_calls:
  "load_model E C name = (calls, r, C') \<Longrightarrow>
   list_all (\<lambda>x. x = Call_spacy_load name \<or> x = Cache_store name) calls"
  by (auto simp: load_model_def split: option.splits sum.splits)

lemma load_model_calls_plain:
  assumes "load_model E C name = (calls, r, C')"
  shows "\<not> list_ex is_inference calls" "\<not> list_ex is_result calls"
    "\<not> list_ex is_uncaught calls" "\<not> list_ex is_chart_or_table calls" "view k calls = []"
    "\<not> halted calls"
  using assms by (auto simp: load_model_def split: option.splits sum.splits)

lemma run_loaded:
  "load_model E C (model_name w) = (calls, Inr nlp, C') \<Longrightarrow>
   run E C w =
     (preamble @ calls @ [Sidebar_success (loaded_message (model_name w))] @ page E nlp w, C')"
  by (simp add: run_def)

lemma page_blank:
  "analyze w \<Longrightarrow> list_all isspace (text_input w) \<Longrightarrow>
   page E nlp w = page_top @ [Error empty_input_message] @ page_bottom"
  by (simp add: page_def analysis_def strip_eq_Nil seq_Cons page_top_def page_bottom_def)

lemma page_idle: "\<not> analyze w \<Longrightarrow> page E nlp w = page_top @ page_bottom"
  by (simp add: page_def seq_Cons page_top_def page_bottom_def)

text \<open>
  C3.  With a loaded model, pressing the button on a text that is empty or all whitespace
  adds the validation error to the page and nothing else: the run is the run without the
  button plus that one message, the pipeline is not called, no tab, table or chart is
  written, no exception escapes, the script runs to its end, and the cache is the one a run
  without the button leaves.
\<close>

theorem blank_input_rejected:
  assumes "analyze w" and "list_all isspace (text_input w)"
    and "load_model E C (model_name w) = (calls, Inr nlp, C')"
  shows "run E C w =
           (preamble @ calls @ [Sidebar_success (loaded_message (model_name w))] @
            page_top @ [Error empty_input_message] @ page_bottom, C') \<and>
         run E C (w\<lparr>analyze := False\<rparr>) =
           (preamble @ calls @ [Sidebar_success (loaded_message (model_name w))] @
            page_top @ page_bottom, C') \<and>
         \<not> list_ex is_inference (fst (run E C w)) \<and>
         \<not> list_ex is_result (fst (run E C w)) \<and>
         \<not> list_ex is_uncaught (fst (run E C w)) \<and>
         \<not> halted (fst (run E C w))"
proof -
  have r: "run E C w =
           (preamble @ calls @ [Sidebar_success (loaded_message (model_name w))] @
            page_top @ [Error empty_input_message] @ page_bottom, C')"
    using assms by (simp add: run_loaded page_blank)
  have i: "run E C (w\<lparr>analyze := False\<rparr>) =
           (preamble @ calls @ [Sidebar_success (loaded_message (model_name w))] @
            page_top @ page_bottom, C')"
    using assms(3) run_loaded [of E C "w\<lparr>analyze := False\<rparr>" calls nlp C']
    by (simp add: page_idle)
  show ?thesis
    using load_model_calls_plain [OF assms(3)]
    by (simp add: r i preamble_def page_top_def page_bottom_def halted_append)
qed

theorem blank_input_rejected_witness:
  "run sample_env Map.empty
     \<lparr>model_name = py ''en_core_web_sm'', text_input = [32, 10, 12288], analyze = True\<rparr> =
   (preamble @ [Call_spacy_load (py ''en_core_web_sm''), Cache_store (py ''en_core_web_sm''),
                Sidebar_success (loaded_message (py ''en_core_web_sm''))] @
    page_top @ [Error empty_input_message] @ page_bottom,
    [py ''en_core_web_sm'' \<mapsto> sample_nlp])"
proof -
  let ?w = "\<lparr>model_name = py ''en_core_web_sm'', text_input = [32, 10, 12288], analyze = True\<rparr>"
  have a: "analyze ?w" by simp
  have b: "list_all isspace (text_input ?w)" by (simp add: isspace_def)
  have c: "load_model sample_env Map.empty (model_name ?w) =
             ([Call_spacy_load (py ''en_core_web_sm''), Cache_store (py ''en_core_web_sm'')],
              Inr sample_nlp, [py ''en_core_web_sm'' \<mapsto> sample_nlp])"
    by (simp add: load_model_def sample_env_def)
  show ?thesis using blank_input_rejected [OF a b c] by simp
qed

text \<open>
  C10.  Whatever exception \<open>spacy.load\<close> raises, the run is the same: the sidebar error
  with the install instruction, then \<open>st.stop()\<close>.  Replacing the exception by any other
  one changes nothing, and no exception leaves the script.
\<close>

theorem every_load_exception_same_report:
  assumes "C (model_name w) = None" and "spacy_load E (model_name w) = Inl e"
  shows "run E C w =
           (preamble @ [Call_spacy_load (model_name w),
                        Sidebar_error (not_found_message (model_name w)), Stop], C) \<and>
         run (E\<lparr>spacy_load := (spacy_load E)(model_name w := Inl e')\<rparr>) C w = run E C w \<and>
         \<not> list_ex is_uncaught (fst (run E C w))"
proof -
  have 1: "run E C w =
           (preamble @ [Call_spacy_load (model_name w),
                        Sidebar_error (not_found_message (model_name w)), Stop], C)"
    using assms by (rule run_load_failed)
  have 2: "run (E\<lparr>spacy_load := (spacy_load E)(model_name w := Inl e')\<rparr>) C w =
           (preamble @ [Call_spacy_load (model_name w),
                        Sidebar_error (not_found_message (model_name w)), Stop], C)"
    using assms(1) by (intro run_load_failed) simp_all
  show ?thesis by (simp add: 1 2 preamble_def)
qed

theorem every_load_exception_same_report_witness:
  "run (sample_env\<lparr>spacy_load := (\<lambda>name. Inl (BaseException (py ''MemoryError'') []))\<rparr>) Map.empty
     \<lparr>model_name = py ''en_core_web_sm'', text_input = default_text, analyze = False\<rparr> =
   (preamble @ [Call_spacy_load (py ''en_core_web_sm''),
                Sidebar_error (not_found_message (py ''en_core_web_sm'')), Stop], Map.empty)"
proof -
  let ?w = "\<lparr>model_name = py ''en_core_web_sm'', text_input = default_text, analyze = False\<rparr>"
  let ?E = "sample_env\<lparr>spacy_load := (\<lambda>name. Inl (BaseException (py ''MemoryError'') []))\<rparr>"
  have a: "Map.empty (model_name ?w) = (None :: language option)" by simp
  have b: "spacy_load ?E (model_name ?w) = Inl (BaseException (py ''MemoryError'') [])" by simp
  show ?thesis using every_load_exception_same_report [of Map.empty ?w ?E, OF a b] by simp
qed

section \<open>Results without entities\<close>

lemma halted_map_In_tab [simp]: "halted (map (In_tab k) xs) = halted xs"
  by (cases xs rule: rev_cases) (simp_all add: halted_def last_map)

lemma view_append [simp]: "view k (xs @ ys) = view k xs @ view k ys"
  by (induction k xs rule: view.induct) simp_all

lemma view_map_In_tab [simp]: "view k (map (In_tab j) xs) = (if j = k then xs else [])"
  by (induction xs) auto

lemma view_simps [simp]: "view k preamble = []" "view k page_top = []" "view k page_bottom = []"
  by (simp_all add: preamble_def page_top_def page_bottom_def)

lemma chart_map_In_tab [simp]:
  "list_ex is_chart_or_table (map (In_tab k) xs) = list_ex is_chart_or_table xs"
  by (induction xs) simp_all

lemma page_analysed:
  "analyze w \<Longrightarrow> \<not> list_all isspace (text_input w) \<Longrightarrow> nlp (text_input w) = Inr d \<Longrightarrow>
   page E nlp w =
     page_top @ Call_nlp (text_input w) #
       (if halted (results E d) then results E d else results E d @ page_bottom)"
  by (simp add: page_def analysis_def strip_eq_Nil seq_Cons page_top_def)

lemma results_no_ents:
  "ents d = [] \<Longrightarrow>
   results E d =
     Tabs tab_names # map (In_tab 1) (tab1 E d) @
     map (In_tab 2) [Subheader (py ''Extracted Entities''), Info no_entities_message] @
     map (In_tab 3) [Subheader (py ''Entity Count by Type''), Info no_entities_message] @
     map (In_tab 4) [Subheader (py ''Entity Network Visualization''), Info no_entities_message]"
  by (simp add: results_def seq_Cons tab1_def tab2_def tab3_def tab4_def)

text \<open>
  C1, as the script has it.  When the analysed text has no entity, the entity list, the
  entity count and the entity visualization each show the notice
  \<open>No entities were detected in the text.\<close> and nothing else under their heading, and no
  table or chart is written anywhere on the page.  The highlighted text view has no such
  test: it always shows what displaCy renders for the document, and no notice.
\<close>

theorem no_entities_views:
  assumes "analyze w" and "\<not> list_all isspace (text_input w)"
    and "load_model E C (model_name w) = (calls, Inr nlp, C')"
    and "nlp (text_input w) = Inr d" and "ents d = []"
  shows "view 1 (fst (run E C w)) =
           [Subheader (py ''Entities Highlighted in Text''),
            Markdown (displacy_render E d entity_colors)] \<and>
         view 2 (fst (run E C w)) =
           [Subheader (py ''Extracted Entities''), Info no_entities_message] \<and>
         view 3 (fst (run E C w)) =
           [Subheader (py ''Entity Count by Type''), Info no_entities_message] \<and>
         view 4 (fst (run E C w)) =
           [Subheader (py ''Entity Network Visualization''), Info no_entities_message] \<and>
         \<not> list_ex is_chart_or_table (fst (run E C w))"
proof -
  have r: "fst (run E C w) =
             preamble @ calls @ [Sidebar_success (loaded_message (model_name w))] @
             page_top @ Call_nlp (text_input w) # results E d @ page_bottom"
    using assms by (simp add: run_loaded page_analysed results_no_ents tab1_def)
  have c: "\<not> list_ex is_chart_or_table preamble" "\<not> list_ex is_chart_or_table page_top"
    "\<not> list_ex is_chart_or_table page_bottom"
    by (simp_all add: preamble_def page_top_def page_bottom_def)
  show ?thesis
    using load_model_calls_plain [OF assms(3)] c
    by (simp add: r results_no_ents [OF assms(5)] tab1_def)
qed

theorem no_entities_views_witness:
  "view 1 (fst (run sample_env Map.empty
      \<lparr>model_name = py ''en_core_web_sm'', text_input = py ''Hello'', analyze = True\<rparr>)) =
     [Subheader (py ''Entities Highlighted in Text''), Markdown (py ''Hello'')] \<and>
   view 2 (fst (run sample_env Map.empty
      \<lparr>model_name = py ''en_core_web_sm'', text_input = py ''Hello'', analyze = True\<rparr>)) =
     [Subheader (py ''Extracted Entities''), Info no_entities_message]"
proof -
  let ?w = "\<lparr>model_name = py ''en_core_web_sm'', text_input = py ''Hello'', analyze = True\<rparr>"
  let ?d = "\<lparr>doc_text = py ''Hello'', ents = []\<rparr>"
  have a: "analyze ?w" by simp
  have b: "\<not> list_all isspace (text_input ?w)" by (simp add: isspace_def py_def)
  have c: "load_model sample_env Map.empty (model_name ?w) =
             ([Call_spacy_load (py ''en_core_web_sm''), Cache_store (py ''en_core_web_sm'')],
              Inr sample_nlp, [py ''en_core_web_sm'' \<mapsto> sample_nlp])"
    by (simp add: load_model_def sample_env_def)
  have n: "sample_nlp (text_input ?w) = Inr ?d"
    by (simp add: sample_nlp_def sample_doc_def money_doc_def york_doc_def py_def)
  have e: "ents ?d = []" by simp
  show ?thesis
    using no_entities_views [OF a b c n e] by (simp add: sample_env_def)
qed

text \<open>
  C1, as it is stated, asks the notice of all four views.  In the sample environment the
  text \<open>Hello\<close> has no entity, and the highlighted text view does not hold the notice.
\<close>

theorem highlighted_view_has_no_notice:
  "Info no_entities_message \<notin>
     set (view 1 (fst (run sample_env Map.empty
       \<lparr>model_name = py ''en_core_web_sm'', text_input = py ''Hello'', analyze = True\<rparr>)))"
proof -
  let ?w = "\<lparr>model_name = py ''en_core_web_sm'', text_input = py ''Hello'', analyze = True\<rparr>"
  let ?d = "\<lparr>doc_text = py ''Hello'', ents = []\<rparr>"
  have c: "load_model sample_env Map.empty (model_name ?w) =
             ([Call_spacy_load (py ''en_core_web_sm''), Cache_store (py ''en_core_web_sm'')],
              Inr sample_nlp, [py ''en_core_web_sm'' \<mapsto> sample_nlp])"
    by (simp add: load_model_def sample_env_def)
  have n: "sample_nlp (text_input ?w) = Inr ?d"
    by (simp add: sample_nlp_def sample_doc_def money_doc_def york_doc_def py_def)
  have b: "\<not> list_all isspace (text_input ?w)" by (simp add: isspace_def py_def)
  have "fst (run sample_env Map.empty ?w) =
             preamble @ [Call_spacy_load (py ''en_core_web_sm''), Cache_store (py ''en_core_web_sm'')] @ [Sidebar_success (loaded_message (model_name ?w))] @
             page_top @ Call_nlp (text_input ?w) # results sample_env ?d @ page_bottom"
    using run_loaded [OF c] page_analysed [of ?w sample_nlp ?d sample_env, OF _ b n]
    by (simp add: results_no_ents tab1_def)
  then show ?thesis
    by (simp add: results_no_ents tab1_def)
qed

section \<open>The frequency chart\<close>

lemma set_first_seen [simp]: "set (first_seen xs) = set xs"
  by (induction xs) auto

lemma distinct_first_seen [simp]: "distinct (first_seen xs)"
  by (induction xs) auto

lemma first_seen_snoc:
  "first_seen (xs @ [x]) = (if x \<in> set xs then first_seen xs else first_seen xs @ [x])"
  by (induction xs) auto

lemma counter_add_old:
  "distinct ks \<Longrightarrow> x \<in> set ks \<Longrightarrow>
   counter_add (map (\<lambda>k. (k, f k)) ks) x = map (\<lambda>k. (k, if k = x then f k + 1 else f k)) ks"
  by (induction ks) auto

lemma counter_add_new:
  "x \<notin> set ks \<Longrightarrow> counter_add (map (\<lambda>k. (k, f k)) ks) x = map (\<lambda>k. (k, f k)) ks @ [(x, 1)]"
  by (induction ks) auto

lemma Counter_snoc: "Counter (xs @ [x]) = counter_add (Counter xs) x"
  by (simp add: Counter_def)

lemma Counter_eq: "Counter xs = map (\<lambda>k. (k, count_list xs k)) (first_seen xs)"
proof (induction xs rule: rev_induct)
  case Nil
  show ?case by (simp add: Counter_def)
next
  case (snoc x xs)
  show ?case
  proof (cases "x \<in> set xs")
    case True
    then show ?thesis
      by (simp add: Counter_snoc snoc.IH counter_add_old first_seen_snoc)
  next
    case False
    then show ?thesis
      by (auto simp: Counter_snoc snoc.IH counter_add_new first_seen_snoc)
  qed
qed

lemma category_position_distinct:
  "distinct (pre @ xs) \<Longrightarrow>
   map (category_position (pre @ xs)) xs = [length pre..<length pre + length xs]"
proof (induction xs arbitrary: pre)
  case Nil
  show ?case by simp
next
  case (Cons x xs)
  have "takeWhile (\<lambda>y. y \<noteq> x) (pre @ x # xs) = pre"
    using Cons.prems by (subst takeWhile_append2) auto
  then have a: "category_position (pre @ x # xs) x = length pre"
    by (simp add: category_position_def)
  have "map (category_position ((pre @ [x]) @ xs)) xs =
      [length (pre @ [x])..<length (pre @ [x]) + length xs]"
    using Cons.prems by (intro Cons.IH) simp
  then have b: "map (category_position (pre @ x # xs)) xs =
      [Suc (length pre)..<length pre + length (x # xs)]"
    by simp
  have c: "[length pre..<length pre + length (x # xs)] =
      length pre # [Suc (length pre)..<length pre + length (x # xs)]"
    by (subst upt_rec) simp
  show ?case
    unfolding c using a b by simp
qed


lemma zip_maps: "zip xs (zip (map f xs) (map g xs)) = map (\<lambda>x. (x, f x, g x)) xs"
  by (induction xs) simp_all

lemma count_figure_bars:
  "fig_bars (count_figure d) =
     map (\<lambda>k. Rectangle (category_position (first_seen (map span_label (ents d))) k) k
                 (count_list (map span_label (ents d)) k) (color_of k))
       (first_seen (map span_label (ents d)))"
  by (simp add: count_figure_def Counter_eq ax_bar_def Let_def comp_def zip_maps)

lemma category_position_first_seen:
  "map (category_position (first_seen ls)) (first_seen ls) = [0..<length (first_seen ls)]"
  using category_position_distinct [of "[]" "first_seen ls"] by simp

lemma decimal_value_snoc: "decimal_value (s @ [c]) = 10 * decimal_value s + (c - 48)"
  by (simp add: decimal_value_def)

lemma decimal_value_dec: "decimal_value (dec n) = n"
proof (induction n rule: dec.induct)
  case (1 n)
  show ?case
  proof (cases "n < 10")
    case True
    then show ?thesis by (subst dec.simps) (simp add: decimal_value_def)
  next
    case False
    then have "decimal_value (dec (n div 10)) = n div 10" by (rule "1.IH")
    then show ?thesis
      using False by (subst dec.simps) (simp add: decimal_value_snoc)
  qed
qed

lemma dec_digits: "dec n \<noteq> [] \<and> list_all is_digit (dec n)"
proof (induction n rule: dec.induct)
  case (1 n)
  show ?case
  proof (cases "n < 10")
    case True
    then show ?thesis by (subst (1 2) dec.simps) (simp add: is_digit_def)
  next
    case False
    then have "dec (n div 10) \<noteq> [] \<and> list_all is_digit (dec (n div 10))" by (rule "1.IH")
    moreover have "is_digit (48 + n mod 10)"
      by (simp add: is_digit_def)
    ultimately show ?thesis
      using False by (subst (1 2) dec.simps) simp
  qed
qed

lemma dec_nonempty: "dec n \<noteq> []"
  using dec_digits by blast

lemma dec_is_digit: "x \<in> set (dec n) \<Longrightarrow> is_digit x"
  using dec_digits [of n] by (simp add: list_all_iff)

lemma color_of_lookup:
  "color_of l = (case map_of entity_colors l of None \<Rightarrow> py ''#cccccc'' | Some c \<Rightarrow> c)"
  by (simp add: color_of_def dict_get_def)

text \<open>
  C4.  For a document with at least one entity, the entity count view is its heading and
  one bar chart.  The bars carry the distinct labels of the entities in the order of their
  first occurrence, one bar per label, at positions 0, 1, 2, ...; the height of a bar is the
  number of entities with its label, and its colour is the colour the table gives the
  label (or the fallback).  Above each bar, at the bar's position and height, stands a
  non-empty string of decimal digits drawn as it is, and the number it stands for is the
  number of entities with the bar's label.
\<close>

theorem frequency_chart_bars:
  assumes "ents d \<noteq> []"
  shows "(let labels = map span_label (ents d); bars = fig_bars (count_figure d) in
         tab3 d = [Subheader (py ''Entity Count by Type''), Pyplot (count_figure d)] \<and>
         map rect_label bars = first_seen labels \<and>
         distinct (map rect_label bars) \<and>
         set (map rect_label bars) = set labels \<and>
         map rect_height bars = map (count_list labels) (map rect_label bars) \<and>
         map rect_pos bars = [0..<length bars] \<and>
         map rect_color bars = map color_of (map rect_label bars) \<and>
         map rect_color bars =
           map (\<lambda>l. case map_of entity_colors l of None \<Rightarrow> py ''#cccccc'' | Some c \<Rightarrow> c)
             (map rect_label bars) \<and>
         fig_annotations (count_figure d) =
           map (\<lambda>b. Annotation (Plain (dec (count_list labels (rect_label b)))) (rect_pos b)
                      (count_list labels (rect_label b))) bars \<and>
         list_all (\<lambda>b. dec (count_list labels (rect_label b)) \<noteq> [] \<and>
                        list_all is_digit (dec (count_list labels (rect_label b))) \<and>
                        decimal_value (dec (count_list labels (rect_label b))) =
                          count_list labels (rect_label b)) bars)"
proof -
  have t: "tab3 d = [Subheader (py ''Entity Count by Type''), Pyplot (count_figure d)]"
    using assms by (simp add: tab3_def)
  have a: "fig_annotations (count_figure d) = map bar_label (fig_bars (count_figure d))"
    by (simp add: count_figure_def Let_def)
  have c: "map rect_color (fig_bars (count_figure d)) =
      map color_of (map rect_label (fig_bars (count_figure d)))"
    by (simp add: count_figure_bars comp_def)
  show ?thesis
    unfolding Let_def a
    using category_position_first_seen [of "map span_label (ents d)"] c
    by (simp add: t count_figure_bars comp_def bar_label_def decimal_value_dec dec_nonempty
        dec_is_digit list_all_iff color_of_lookup)
qed

theorem frequency_chart_bars_witness:
  "ents sample_doc \<noteq> [] \<and>
   map rect_label (fig_bars (count_figure sample_doc)) = [py ''PERSON'', py ''ORG''] \<and>
   map rect_height (fig_bars (count_figure sample_doc)) = [2, 1] \<and>
   map rect_pos (fig_bars (count_figure sample_doc)) = [0, 1] \<and>
   fig_annotations (count_figure sample_doc) =
     [Annotation (Plain (py ''2'')) 0 2, Annotation (Plain (py ''1'')) 1 1]"
proof -
  have h: "ents sample_doc \<noteq> []" by (simp add: sample_doc_def)
  have l: "map span_label (ents sample_doc) = [py ''PERSON'', py ''PERSON'', py ''ORG'']"
    by (simp add: sample_doc_def)
  have n: "py ''ORG'' \<noteq> py ''PERSON''" by (simp add: py_def)
  have fs: "first_seen [py ''PERSON'', py ''PERSON'', py ''ORG''] = [py ''PERSON'', py ''ORG'']"
    using n by simp
  have d: "dec (Suc (Suc 0)) = py ''2''" "dec (Suc 0) = py ''1''"
    by (simp_all add: dec.simps py_def)
  note T = frequency_chart_bars [OF h, unfolded Let_def l fs]
  have r: "map rect_label (fig_bars (count_figure sample_doc)) = [py ''PERSON'', py ''ORG'']"
    using T by blast
  have hs: "map rect_height (fig_bars (count_figure sample_doc)) =
      map (count_list [py ''PERSON'', py ''PERSON'', py ''ORG'']) [py ''PERSON'', py ''ORG'']"
    using T unfolding r by blast
  have ps: "map rect_pos (fig_bars (count_figure sample_doc)) =
      [0..<length (fig_bars (count_figure sample_doc))]"
    using T by blast
  have an: "fig_annotations (count_figure sample_doc) =
      map (\<lambda>b. Annotation
                 (Plain (dec (count_list [py ''PERSON'', py ''PERSON'', py ''ORG'']
                    (rect_label b)))) (rect_pos b)
                 (count_list [py ''PERSON'', py ''PERSON'', py ''ORG''] (rect_label b)))
        (fig_bars (count_figure sample_doc))"
    using T by blast
  obtain b1 b2 where bs: "fig_bars (count_figure sample_doc) = [b1, b2]"
    "rect_label b1 = py ''PERSON''" "rect_label b2 = py ''ORG''"
    using r by auto
  have p: "rect_pos b1 = 0" "rect_pos b2 = 1"
    using ps unfolding bs(1) by (simp_all add: upt_rec)
  show ?thesis
    using h r hs n p unfolding an bs(1) by (simp add: bs(2,3) d upt_rec)
qed

section \<open>The scatter view\<close>

lemma list_set_props [simp]:
  "distinct (list_set E xs)" "set (list_set E xs) = set xs"
  by (simp_all add: list_set_def)








lemma draw_all_length: "draw_all E ss = Inr xs \<Longrightarrow> length xs = length ss"
  by (induction ss arbitrary: xs) (auto split: sum.splits)

lemma draw_all_drawable:
  "list_all (drawable E) ss \<Longrightarrow> \<exists>xs. draw_all E ss = Inr xs"
  by (induction ss) (auto simp: drawable_def split: sum.splits)





lemma length_y_values [simp]: "length (y_values E d) = length (ents d)"
  by (simp add: y_values_def Let_def)






end
